theory Spec2Isabelle
  imports Main "HOL-Library.Sublist"
begin

section \<open>Python values\<close>

text \<open>
  The document handed to \<^verbatim>\<open>lint_spec\<close> is whatever \<^verbatim>\<open>yaml.safe_load\<close> or
  \<^verbatim>\<open>json.loads\<close> returned: \<^verbatim>\<open>None\<close>, a bool, an int, a float, a str, a list or a
  dict. A dict is an association list in insertion order, the order in which
  \<^verbatim>\<open>.items()\<close> and \<^verbatim>\<open>.keys()\<close> iterate; a Python dict has no repeated key, and
  lookup takes the first entry. Keys are the hashable scalars a YAML or JSON
  mapping can have (JSON: only str; YAML: also \<^verbatim>\<open>200:\<close> as an int).
  A float is kept as its \<^verbatim>\<open>repr\<close>, which is all this program observes of it:
  its \<^verbatim>\<open>str()\<close> and whether it is zero. A \<open>string\<close> holds the code points of
  a Python str.
\<close>

datatype pykey = KNone | KBool bool | KInt int | KFloat string | KStr string

datatype pyval =
    PNone
  | PBool bool
  | PInt int
  | PFloat string
  | PStr string
  | PList "pyval list"
  | PDict "(pykey \<times> pyval) list"

datatype py_error =
    FileNotFoundError string
  | ImportError string
  | YAMLError string
  | JSONDecodeError string
  | AttributeError string
  | OtherError string

text \<open>\<^verbatim>\<open>str(e)\<close> of an exception: every constructor carries it.\<close>

fun error_str :: "py_error \<Rightarrow> string" where
  "error_str (FileNotFoundError m) = m"
| "error_str (ImportError m) = m"
| "error_str (YAMLError m) = m"
| "error_str (JSONDecodeError m) = m"
| "error_str (AttributeError m) = m"
| "error_str (OtherError m) = m"

text \<open>Sequencing of statements that may raise: the first exception propagates.\<close>

fun and_then :: "'e + 'a \<Rightarrow> ('a \<Rightarrow> 'e + 'b) \<Rightarrow> 'e + 'b" where
  "and_then (Inl e) f = Inl e"
| "and_then (Inr v) f = f v"

text \<open>\<^verbatim>\<open>for x in xs: body\<close>, the body appending to \<^verbatim>\<open>warnings\<close> or raising.\<close>

fun for_each :: "('a \<Rightarrow> 's \<Rightarrow> 'e + 's) \<Rightarrow> 'a list \<Rightarrow> 's \<Rightarrow> 'e + 's" where
  "for_each body [] s = Inr s"
| "for_each body (x # xs) s = and_then (body x s) (for_each body xs)"

text \<open>Truth value testing (\<^verbatim>\<open>if x\<close>, \<^verbatim>\<open>not x\<close>).\<close>

fun truthy :: "pyval \<Rightarrow> bool" where
  "truthy PNone = False"
| "truthy (PBool b) = b"
| "truthy (PInt i) = (i \<noteq> 0)"
| "truthy (PFloat r) = (r \<noteq> ''0.0'' \<and> r \<noteq> ''-0.0'')"
| "truthy (PStr s) = (s \<noteq> [])"
| "truthy (PList xs) = (xs \<noteq> [])"
| "truthy (PDict kvs) = (kvs \<noteq> [])"

definition sq :: string where
  "sq = [CHR 0x27]"

fun type_name :: "pyval \<Rightarrow> string" where
  "type_name PNone = ''NoneType''"
| "type_name (PBool b) = ''bool''"
| "type_name (PInt i) = ''int''"
| "type_name (PFloat r) = ''float''"
| "type_name (PStr s) = ''str''"
| "type_name (PList xs) = ''list''"
| "type_name (PDict kvs) = ''dict''"

fun key_type_name :: "pykey \<Rightarrow> string" where
  "key_type_name KNone = ''NoneType''"
| "key_type_name (KBool b) = ''bool''"
| "key_type_name (KInt i) = ''int''"
| "key_type_name (KFloat r) = ''float''"
| "key_type_name (KStr s) = ''str''"

definition no_attribute :: "string \<Rightarrow> string \<Rightarrow> py_error" where
  "no_attribute ty attr =
     AttributeError (sq @ ty @ sq @ '' object has no attribute '' @ sq @ attr @ sq)"

text \<open>\<^verbatim>\<open>d.get(k, default)\<close>; only a dict has the method.\<close>

fun py_get :: "pyval \<Rightarrow> string \<Rightarrow> pyval \<Rightarrow> py_error + pyval" where
  "py_get (PDict kvs) k d = Inr (case map_of kvs (KStr k) of Some v \<Rightarrow> v | None \<Rightarrow> d)"
| "py_get v k d = Inl (no_attribute (type_name v) ''get'')"

text \<open>\<^verbatim>\<open>d.items()\<close> and \<^verbatim>\<open>d.keys()\<close>.\<close>

fun py_items :: "pyval \<Rightarrow> py_error + (pykey \<times> pyval) list" where
  "py_items (PDict kvs) = Inr kvs"
| "py_items v = Inl (no_attribute (type_name v) ''items'')"

fun py_keys :: "pyval \<Rightarrow> py_error + pykey list" where
  "py_keys (PDict kvs) = Inr (map fst kvs)"
| "py_keys v = Inl (no_attribute (type_name v) ''keys'')"

text \<open>\<^verbatim>\<open>str(n)\<close> of an int, and \<^verbatim>\<open>str(k)\<close> of a key.\<close>

fun str_nat :: "nat \<Rightarrow> string" where
  "str_nat n =
     (if n < 10 then [''0123456789'' ! n]
      else str_nat (n div 10) @ [''0123456789'' ! (n mod 10)])"

declare str_nat.simps [simp del]

definition str_int :: "int \<Rightarrow> string" where
  "str_int i = (if i < 0 then ''-'' @ str_nat (nat (- i)) else str_nat (nat i))"

fun key_str :: "pykey \<Rightarrow> string" where
  "key_str KNone = ''None''"
| "key_str (KBool b) = (if b then ''True'' else ''False'')"
| "key_str (KInt i) = str_int i"
| "key_str (KFloat r) = r"
| "key_str (KStr s) = s"

text \<open>\<^verbatim>\<open>method.upper()\<close>, on the ASCII letters of the seven method names.\<close>

definition upper_char :: "char \<Rightarrow> char" where
  "upper_char c =
     (case map_of (zip ''abcdefghijklmnopqrstuvwxyz'' ''ABCDEFGHIJKLMNOPQRSTUVWXYZ'') c of
        Some u \<Rightarrow> u | None \<Rightarrow> c)"

definition upper :: "string \<Rightarrow> string" where
  "upper s = map upper_char s"

section \<open>The lint engine: \<^verbatim>\<open>lint_spec\<close>\<close>

text \<open>
  Each block of \<^verbatim>\<open>lint_spec\<close> is a function that takes the \<^verbatim>\<open>warnings\<close> list
  built so far and returns it extended, or the exception it raised.
\<close>

text \<open>Lines 80-85: the version check.\<close>

definition lint_version :: "pyval \<Rightarrow> string list \<Rightarrow> py_error + string list" where
  "lint_version spec warnings =
     and_then (py_get spec ''openapi'' (PStr [])) (\<lambda>openapi_version.
       if \<not> truthy openapi_version
       then Inr (warnings @ [''LINT: Missing 'openapi' version field''])
       else (case openapi_version of
               PStr s \<Rightarrow>
                 if \<not> prefix ''3.'' s
                 then Inr (warnings @ [''LINT: OpenAPI version '' @ sq @ s @ sq @ '' is not 3.x''])
                 else Inr warnings
             | v \<Rightarrow> Inl (no_attribute (type_name v) ''startswith'')))"

text \<open>Lines 88-97: the info section.\<close>

definition lint_info :: "pyval \<Rightarrow> string list \<Rightarrow> py_error + string list" where
  "lint_info spec warnings =
     and_then (py_get spec ''info'' (PDict [])) (\<lambda>info.
       if \<not> truthy info
       then Inr (warnings @ [''LINT: Missing 'info' section''])
       else
         and_then (py_get info ''title'' PNone) (\<lambda>title.
         let warnings1 = (if \<not> truthy title
                          then warnings @ [''LINT: Missing 'info.title'' @ sq]
                          else warnings) in
         and_then (py_get info ''version'' PNone) (\<lambda>version.
         let warnings2 = (if \<not> truthy version
                          then warnings1 @ [''LINT: Missing 'info.version'' @ sq]
                          else warnings1) in
         and_then (py_get info ''description'' PNone) (\<lambda>description.
         Inr (if \<not> truthy description
              then warnings2 @ [''LINT: Missing 'info.description' (recommended)'']
              else warnings2)))))"

text \<open>Lines 137-139: one response entry of an operation.\<close>

definition lint_response :: "string \<Rightarrow> pykey \<times> pyval \<Rightarrow> string list \<Rightarrow> py_error + string list" where
  "lint_response op_id entry warnings =
     (case entry of (code, response) \<Rightarrow>
        if truthy response
        then and_then (py_get response ''description'' PNone) (\<lambda>description.
               Inr (if \<not> truthy description
                    then warnings @ [''LINT: '' @ op_id @ '' response '' @ sq @ key_str code @ sq
                                       @ '' missing description'']
                    else warnings))
        else Inr warnings)"

text \<open>Lines 127-139: the responses of an operation.\<close>

definition lint_responses :: "string \<Rightarrow> pyval \<Rightarrow> string list \<Rightarrow> py_error + string list" where
  "lint_responses op_id operation warnings =
     and_then (py_get operation ''responses'' (PDict [])) (\<lambda>responses.
       if \<not> truthy responses
       then Inr (warnings @ [''LINT: '' @ op_id @ '' has no responses defined''])
       else
         and_then (py_keys responses) (\<lambda>codes.
         let has_success = list_ex (\<lambda>code. prefix ''2'' (key_str code)) codes;
             warnings1 = (if \<not> has_success \<and> KStr ''default'' \<notin> set codes
                          then warnings @ [''LINT: '' @ op_id @ '' has no success (2xx) response'']
                          else warnings) in
         and_then (py_items responses) (\<lambda>entries.
         for_each (lint_response op_id) entries warnings1)))"

text \<open>Lines 116-139: the checks of one operation (a truthy value under a method key).\<close>

definition lint_operation :: "string \<Rightarrow> string \<Rightarrow> pyval \<Rightarrow> string list \<Rightarrow> py_error + string list" where
  "lint_operation path method operation warnings =
     (let op_id = upper method @ '' '' @ path in
      and_then (py_get operation ''operationId'' PNone) (\<lambda>operationId.
      let warnings1 = (if \<not> truthy operationId
                       then warnings @ [''LINT: '' @ op_id @ '' missing 'operationId'' @ sq]
                       else warnings) in
      and_then (py_get operation ''summary'' PNone) (\<lambda>summary.
      and_then (if \<not> truthy summary
                then and_then (py_get operation ''description'' PNone) (\<lambda>description.
                       Inr (\<not> truthy description))
                else Inr False) (\<lambda>neither.
      let warnings2 = (if neither
                       then warnings1 @ [''LINT: '' @ op_id @ '' missing 'summary' or 'description'' @ sq]
                       else warnings1) in
      lint_responses op_id operation warnings2))))"

text \<open>Lines 114-115: one method name of the fixed list, on one path item.\<close>

definition lint_method :: "string \<Rightarrow> pyval \<Rightarrow> string \<Rightarrow> string list \<Rightarrow> py_error + string list" where
  "lint_method path path_item method warnings =
     and_then (py_get path_item method PNone) (\<lambda>operation.
       if truthy operation then lint_operation path method operation warnings
       else Inr warnings)"

definition methods :: "string list" where
  "methods = [''get'', ''post'', ''put'', ''patch'', ''delete'', ''head'', ''options'']"

text \<open>Lines 105-139: one entry of \<^verbatim>\<open>paths\<close>. A key that is not a str has no
  \<^verbatim>\<open>startswith\<close>; a \<^verbatim>\<open>None\<close> path item is skipped by \<^verbatim>\<open>continue\<close>.\<close>

definition lint_path :: "pykey \<times> pyval \<Rightarrow> string list \<Rightarrow> py_error + string list" where
  "lint_path entry warnings =
     (case entry of (key, path_item) \<Rightarrow>
        (case key of
           KStr path \<Rightarrow>
             (let warnings1 = (if \<not> prefix ''/'' path
                               then warnings @ [''LINT: Path '' @ sq @ path @ sq @ '' should start with '/'' @ sq]
                               else warnings) in
              if path_item = PNone then Inr warnings1
              else for_each (lint_method path path_item) methods warnings1)
         | k \<Rightarrow> Inl (no_attribute (key_type_name k) ''startswith'')))"

text \<open>Lines 100-139: the paths.\<close>

definition lint_paths :: "pyval \<Rightarrow> string list \<Rightarrow> py_error + string list" where
  "lint_paths spec warnings =
     and_then (py_get spec ''paths'' (PDict [])) (\<lambda>paths.
       if \<not> truthy paths
       then Inr (warnings @ [''LINT: No paths defined''])
       else and_then (py_items paths) (\<lambda>entries. for_each lint_path entries warnings))"

text \<open>Lines 144-150: one entry of \<^verbatim>\<open>components.schemas\<close>. The \<^verbatim>\<open>and\<close> chains
  stop at the first falsy operand, so a later \<^verbatim>\<open>.get\<close> is reached only when
  the earlier ones gave a falsy value.\<close>

fun none_truthy :: "pyval \<Rightarrow> string list \<Rightarrow> py_error + bool" where
  "none_truthy schema [] = Inr True"
| "none_truthy schema (k # ks) =
     and_then (py_get schema k PNone) (\<lambda>v.
       if \<not> truthy v then none_truthy schema ks else Inr False)"

definition lint_schema :: "pykey \<times> pyval \<Rightarrow> string list \<Rightarrow> py_error + string list" where
  "lint_schema entry warnings =
     (case entry of (schema_name, schema) \<Rightarrow>
        and_then (if truthy schema then none_truthy schema [''description''] else Inr False)
          (\<lambda>no_description.
        let warnings1 = (if no_description
                         then warnings @ [''LINT: Schema '' @ sq @ key_str schema_name @ sq
                                            @ '' missing description (recommended)'']
                         else warnings) in
        and_then (if truthy schema
                  then none_truthy schema [''type'', ''$ref'', ''allOf'', ''oneOf'', ''anyOf'']
                  else Inr False)
          (\<lambda>no_type.
        Inr (if no_type
             then warnings1 @ [''LINT: Schema '' @ sq @ key_str schema_name @ sq
                                 @ '' has no type definition'']
             else warnings1))))"

text \<open>Lines 142-156: the schemas and the security check, which share \<^verbatim>\<open>components\<close>.\<close>

definition lint_components :: "pyval \<Rightarrow> string list \<Rightarrow> py_error + string list" where
  "lint_components spec warnings =
     and_then (py_get spec ''components'' (PDict [])) (\<lambda>components.
     and_then (py_get components ''schemas'' (PDict [])) (\<lambda>schemas.
     and_then (py_items schemas) (\<lambda>entries.
     and_then (for_each lint_schema entries warnings) (\<lambda>warnings1.
     and_then (py_get spec ''security'' (PList [])) (\<lambda>security.
     and_then (py_get components ''securitySchemes'' (PDict [])) (\<lambda>security_schemes.
     Inr (if truthy security \<and> \<not> truthy security_schemes
          then warnings1 @ [''LINT: Security requirements defined but no securitySchemes in components'']
          else warnings1)))))))"

text \<open>Lines 159-161: the servers.\<close>

definition lint_servers :: "pyval \<Rightarrow> string list \<Rightarrow> py_error + string list" where
  "lint_servers spec warnings =
     and_then (py_get spec ''servers'' (PList [])) (\<lambda>servers.
       Inr (if \<not> truthy servers
            then warnings @ [''LINT: No servers defined (recommended for clarity)'']
            else warnings))"

text \<open>Lines 76-163, starting from \<^verbatim>\<open>warnings = []\<close>.\<close>

definition lint_spec :: "pyval \<Rightarrow> py_error + string list" where
  "lint_spec spec =
     and_then (lint_version spec []) (\<lambda>w1.
     and_then (lint_info spec w1) (\<lambda>w2.
     and_then (lint_paths spec w2) (\<lambda>w3.
     and_then (lint_components spec w3) (\<lambda>w4.
     lint_servers spec w4))))"

section \<open>The conformance checker: \<^verbatim>\<open>validate_schema\<close>\<close>

text \<open>
  What the program is given from outside: the two import flags, the file system
  (\<^verbatim>\<open>Path.exists\<close>, \<^verbatim>\<open>Path.suffix\<close>, \<^verbatim>\<open>Path.read_text\<close>), the two parsers and
  the validator. \<open>validate_file p\<close> is \<^verbatim>\<open>validate(read_from_filename(p))\<close>: it
  returns, raises \<^verbatim>\<open>OpenAPIValidationError\<close> (with its \<^verbatim>\<open>message\<close> attribute, when
  it has one, and its \<^verbatim>\<open>str\<close>) or raises another \<^verbatim>\<open>Exception\<close> (with its \<^verbatim>\<open>str\<close>).
\<close>

datatype validate_outcome =
    Returns
  | Raises_OpenAPIValidationError "string option" string
  | Raises_Exception string

record env =
  YAML_AVAILABLE :: bool
  VALIDATOR_AVAILABLE :: bool
  path_exists :: "string \<Rightarrow> bool"
  path_suffix :: "string \<Rightarrow> string"
  read_text :: "string \<Rightarrow> py_error + string"
  yaml_safe_load :: "string \<Rightarrow> py_error + pyval"
  json_loads :: "string \<Rightarrow> py_error + pyval"
  validate_file :: "string \<Rightarrow> validate_outcome"

text \<open>\<^verbatim>\<open>str.strip()\<close>: the characters below 256 for which \<^verbatim>\<open>str.isspace\<close> holds.\<close>

definition is_space :: "char \<Rightarrow> bool" where
  "is_space c \<longleftrightarrow>
     c \<in> set [CHR 0x09, CHR 0x0A, CHR 0x0B, CHR 0x0C, CHR 0x0D, CHR 0x1C, CHR 0x1D,
              CHR 0x1E, CHR 0x1F, CHR 0x20, CHR 0x85, CHR 0xA0]"

definition strip :: "string \<Rightarrow> string" where
  "strip s = rev (dropWhile is_space (rev (dropWhile is_space s)))"

text \<open>Lines 56-73.\<close>

definition validate_schema :: "env \<Rightarrow> string \<Rightarrow> string list" where
  "validate_schema env file_path =
     (if \<not> VALIDATOR_AVAILABLE env
      then [''ERROR: openapi-spec-validator not installed. Install with: pip install openapi-spec-validator'']
      else (case validate_file env file_path of
              Returns \<Rightarrow> []
            | Raises_OpenAPIValidationError message str_e \<Rightarrow>
                [''SCHEMA ERROR: '' @ (case message of Some m \<Rightarrow> m | None \<Rightarrow> str_e)]
            | Raises_Exception str_e \<Rightarrow>
                (let error_msg = strip str_e in
                 if error_msg \<noteq> [] then [''ERROR: '' @ error_msg] else [])))"

section \<open>Loading: \<^verbatim>\<open>load_spec\<close>\<close>

text \<open>Lines 31-53. Only \<^verbatim>\<open>yaml.YAMLError\<close> is caught in the last branch.\<close>

definition load_spec :: "env \<Rightarrow> string \<Rightarrow> py_error + pyval" where
  "load_spec env file_path =
     (if \<not> path_exists env file_path
      then Inl (FileNotFoundError (''File not found: '' @ file_path))
      else
        and_then (read_text env file_path) (\<lambda>content.
          if path_suffix env file_path = ''.yaml'' \<or> path_suffix env file_path = ''.yml''
          then (if \<not> YAML_AVAILABLE env
                then Inl (ImportError ''PyYAML is required for YAML files. Install with: pip install pyyaml'')
                else yaml_safe_load env content)
          else if path_suffix env file_path = ''.json''
          then json_loads env content
          else if YAML_AVAILABLE env
          then (case yaml_safe_load env content of
                  Inl (YAMLError m) \<Rightarrow> json_loads env content
                | r \<Rightarrow> r)
          else json_loads env content))"

section \<open>The report: \<^verbatim>\<open>main\<close>\<close>

record args =
  spec_file :: string
  lint_only :: bool
  schema_only :: bool
  json :: bool

record results =
  file_name :: string
  valid :: bool
  schema_errors :: "string list"
  lint_warnings :: "string list"

text \<open>
  Lines 183-194, the body of the \<^verbatim>\<open>try\<close>: it returns \<^verbatim>\<open>results\<close> as it stands
  when the body ends or raises, and the exception if there is one.
\<close>

definition try_body :: "env \<Rightarrow> args \<Rightarrow> results \<Rightarrow> results \<times> py_error option" where
  "try_body env a results0 =
     (case load_spec env (spec_file a) of
        Inl e \<Rightarrow> (results0, Some e)
      | Inr spec \<Rightarrow>
          (let results1 =
                 (if \<not> lint_only a
                  then (let r = results0\<lparr>schema_errors := validate_schema env (spec_file a)\<rparr>
                        in if schema_errors r \<noteq> [] then r\<lparr>valid := False\<rparr> else r)
                  else results0)
           in if \<not> schema_only a
              then (case lint_spec spec of
                      Inl e \<Rightarrow> (results1, Some e)
                    | Inr warnings \<Rightarrow> (results1\<lparr>lint_warnings := warnings\<rparr>, None))
              else (results1, None)))"

text \<open>Lines 175-201: the report, with the two \<^verbatim>\<open>except\<close> clauses.\<close>

definition main_results :: "env \<Rightarrow> args \<Rightarrow> results" where
  "main_results env a =
     (case try_body env a \<lparr>file_name = spec_file a, valid = True, schema_errors = [], lint_warnings = []\<rparr> of
        (r, None) \<Rightarrow> r
      | (r, Some (FileNotFoundError m)) \<Rightarrow> r\<lparr>valid := False, schema_errors := [m]\<rparr>
      | (r, Some e) \<Rightarrow>
          r\<lparr>valid := False, schema_errors := [''Failed to parse spec: '' @ error_str e]\<rparr>)"

text \<open>Line 231: the exit code. The printing of lines 204-228 changes neither.\<close>

definition exit_code :: "results \<Rightarrow> int" where
  "exit_code r = (if valid r then 0 else 1)"

definition main :: "env \<Rightarrow> args \<Rightarrow> results \<times> int" where
  "main env a = (let r = main_results env a in (r, exit_code r))"

section \<open>Sample inputs\<close>

text \<open>An environment with neither PyYAML nor the validator installed, holding two
  files with the body \<^verbatim>\<open>{}\<close>.\<close>

definition bare_env :: env where
  "bare_env =
     \<lparr>YAML_AVAILABLE = False, VALIDATOR_AVAILABLE = False,
      path_exists = (\<lambda>p. p = ''api.json'' \<or> p = ''api.txt''),
      path_suffix = (\<lambda>p. if p = ''api.json'' then ''.json'' else if p = ''api.txt'' then ''.txt'' else []),
      read_text = (\<lambda>p. Inr ''{}''),
      yaml_safe_load = (\<lambda>c. Inl (YAMLError ''no yaml'')),
      json_loads = (\<lambda>c. if c = ''{}'' then Inr (PDict []) else Inl (JSONDecodeError ''Expecting value'')),
      validate_file = (\<lambda>p. Returns)\<rparr>"

definition run_args :: "string \<Rightarrow> bool \<Rightarrow> bool \<Rightarrow> args" where
  "run_args p lint_flag schema_flag =
     \<lparr>spec_file = p, lint_only = lint_flag, schema_only = schema_flag, json = False\<rparr>"

text \<open>The document \<^verbatim>\<open>{"paths": {"/x": {"get": {"responses": {"200": {}}}}}}\<close>.\<close>

definition scenario_B :: pyval where
  "scenario_B =
     PDict [(KStr ''paths'',
       PDict [(KStr ''/x'',
         PDict [(KStr ''get'',
           PDict [(KStr ''responses'', PDict [(KStr ''200'', PDict [])])])])])]"

section \<open>Evaluation on the scenario documents\<close>

lemmas lint_defs =
  lint_spec_def lint_version_def lint_info_def lint_paths_def lint_path_def lint_method_def
  lint_operation_def lint_responses_def lint_response_def lint_components_def lint_schema_def
  lint_servers_def methods_def

text \<open>
  C8. Linting the empty mapping gives, in this order, the missing-version, missing-info,
  no-paths and no-servers warnings, and nothing from the schemas and security checks.
\<close>

theorem lint_spec_empty_document:
  "lint_spec (PDict []) =
     Inr [''LINT: Missing 'openapi' version field'',
          ''LINT: Missing 'info' section'',
          ''LINT: No paths defined'',
          ''LINT: No servers defined (recommended for clarity)'']"
  by (simp add: lint_defs)

end
